theory Spec2Isabelle
  imports Main
begin

section \<open>The artifact panel of papr-chat: data model\<close>

text \<open>
  The development follows \<^verbatim>\<open>src/components/artifact/artifact.tsx\<close>. The component
  \<^verbatim>\<open>PureArtifact\<close> keeps a version cursor over the fetched list of document snapshots,
  a display mode, the most recent snapshot and a dirty flag; it shares the artifact
  view-model with the rest of the page. Every React state cell becomes a field of the
  record \<open>View\<close>; each handler becomes a function from the old state to the new state
  together with the console lines and network requests it emits, in order.
\<close>

text \<open>
  Modelled from the spec: \<^verbatim>\<open>ArtifactKind\<close> is the union of the \<^verbatim>\<open>kind\<close> fields of the four
  artifact definitions (\<^verbatim>\<open>textArtifact\<close>, \<^verbatim>\<open>imageArtifact\<close>, \<^verbatim>\<open>sheetArtifact\<close>,
  \<^verbatim>\<open>memoryArtifact\<close>), whose client files are not among the sources; the specification
  gives the kinds as text, sheet, image and memory.
\<close>

datatype ArtifactKind = Text | Image | Sheet | Memory

datatype ArtifactStatus = Streaming | Idle

datatype Mode = Edit | Diff

text \<open>The status of the chat request, \<^verbatim>\<open>UseChatHelpers['status']\<close>.\<close>

datatype ChatStatus = ChatSubmitted | ChatStreaming | ChatReady | ChatError

text \<open>The argument of \<^verbatim>\<open>handleVersionChange\<close>: \<^verbatim>\<open>'next' | 'prev' | 'toggle' | 'latest'\<close>.\<close>

datatype VersionChange = Next | Prev | Toggle | Latest

record BoundingBox =
  bb_top :: int
  bb_left :: int
  bb_width :: int
  bb_height :: int

text \<open>
  \<^verbatim>\<open>interface UIArtifact\<close>. The field \<open>content\<close> is \<^verbatim>\<open>string | null\<close>, the optional
  \<open>language\<close> is \<open>None\<close> when undefined.
\<close>

record UIArtifact =
  title :: string
  documentId :: string
  kind :: ArtifactKind
  content :: "string option"
  isVisible :: bool
  status :: ArtifactStatus
  boundingBox :: BoundingBox
  language :: "string option"

text \<open>
  Modelled from the spec: the type \<^verbatim>\<open>Document\<close> is imported from \<^verbatim>\<open>@/lib/db/schema\<close>,
  whose declaration is not among the sources. The specification lists the fields of a
  persisted snapshot as id, title, kind, content, userId, createdAt, is_latest and
  version. The component reads \<^verbatim>\<open>id\<close>, \<^verbatim>\<open>content\<close> and \<^verbatim>\<open>createdAt\<close> only. The content
  of a snapshot may be null: the component guards every read of it with \<^verbatim>\<open>?? ''\<close>,
  \<^verbatim>\<open>|| ''\<close> or \<^verbatim>\<open>?.\<close>.
\<close>

record Document =
  doc_id :: string
  doc_title :: string
  doc_kind :: ArtifactKind
  doc_content :: "string option"
  doc_userId :: string
  doc_createdAt :: int
  doc_is_latest :: bool
  doc_version :: string

text \<open>The state cells of \<^verbatim>\<open>PureArtifact\<close> and the shared artifact.\<close>

record View =
  artifact :: UIArtifact
  mode :: Mode
  document :: "Document option"
  currentVersionIndex :: int
  isContentDirty :: bool

text \<open>What a handler emits: console lines (the message, without its payload) and requests.\<close>

record PostBody =
  body_title :: string
  body_content :: string
  body_kind :: ArtifactKind

datatype Request = GET string | POST string PostBody

datatype Event = ConsoleLog string | ConsoleError string | Fetch Request

section \<open>JavaScript reads\<close>

text \<open>
  \<^verbatim>\<open>documents[index]\<close> for a number that is an integer: the element inside the bounds,
  \<^verbatim>\<open>undefined\<close> (here \<open>None\<close>) outside, also for a negative index.
\<close>

definition js_index :: "'a list \<Rightarrow> int \<Rightarrow> 'a option" where
  "js_index xs i = (if 0 \<le> i \<and> i < int (length xs) then Some (xs ! nat i) else None)"

text \<open>\<^verbatim>\<open>documents.at(-1)\<close>: the last element, \<^verbatim>\<open>undefined\<close> for the empty array.\<close>

definition at_last :: "'a list \<Rightarrow> 'a option" where
  "at_last xs = (if xs = [] then None else Some (last xs))"

text \<open>\<^verbatim>\<open>c ?? ''\<close> and \<^verbatim>\<open>c || ''\<close> on a \<^verbatim>\<open>string | null\<close>: both give the string, or the empty string.\<close>

definition or_empty :: "string option \<Rightarrow> string" where
  "or_empty c = (case c of None \<Rightarrow> [] | Some s \<Rightarrow> s)"

text \<open>
  The guard \<^verbatim>\<open>if (selectedDoc?.content)\<close>: true when the snapshot exists and its content
  is a string other than the empty one.
\<close>

definition has_content :: "Document option \<Rightarrow> bool" where
  "has_content d =
     (case d of
        None \<Rightarrow> False
      | Some x \<Rightarrow> (case doc_content x of None \<Rightarrow> False | Some s \<Rightarrow> s \<noteq> []))"

section \<open>Reading a version\<close>

definition getDocumentContentById :: "Document list option \<Rightarrow> int \<Rightarrow> string" where
  "getDocumentContentById documents index =
     (case documents of
        None \<Rightarrow> []
      | Some ds \<Rightarrow>
          (case js_index ds index of
             None \<Rightarrow> []
           | Some d \<Rightarrow> or_empty (doc_content d)))"

section \<open>Version navigation\<close>

text \<open>
  \<^verbatim>\<open>setArtifact((current) => ({...current, content: doc.content || '', status: 'idle'}))\<close>
\<close>

definition showContent :: "Document \<Rightarrow> View \<Rightarrow> View" where
  "showContent d v =
     v\<lparr>artifact := (artifact v)\<lparr>content := Some (or_empty (doc_content d)), status := Idle\<rparr>\<rparr>"

fun handleVersionChange :: "Document list option \<Rightarrow> View \<Rightarrow> VersionChange \<Rightarrow> View \<times> Event list" where
  "handleVersionChange None v type =
     (v, [ConsoleLog ''[ARTIFACT] No documents available for version control''])"
| "handleVersionChange (Some documents) v Latest =
     (if length documents = 0 then
        (v, [ConsoleLog ''[ARTIFACT] Version change requested:'',
             ConsoleLog ''[ARTIFACT] No versions available to navigate to''])
      else
        (let latestIndex = int (length documents) - 1;
             v1 = v\<lparr>currentVersionIndex := latestIndex, mode := Edit\<rparr>;
             latestDoc = js_index documents latestIndex
         in case latestDoc of
              Some d \<Rightarrow>
                if has_content latestDoc then
                  (showContent d v1,
                   [ConsoleLog ''[ARTIFACT] Version change requested:'',
                    ConsoleLog ''[ARTIFACT] Setting to latest version:'',
                    ConsoleLog ''[ARTIFACT] Updating content with latest version''])
                else
                  (v1,
                   [ConsoleLog ''[ARTIFACT] Version change requested:'',
                    ConsoleLog ''[ARTIFACT] Setting to latest version:'',
                    ConsoleError ''[ARTIFACT] Latest document has no content''])
            | None \<Rightarrow>
                (v1,
                 [ConsoleLog ''[ARTIFACT] Version change requested:'',
                  ConsoleLog ''[ARTIFACT] Setting to latest version:'',
                  ConsoleError ''[ARTIFACT] Latest document has no content''])))"
| "handleVersionChange (Some documents) v Toggle =
     (let newMode = (if mode v = Edit then Diff else Edit)
      in (v\<lparr>mode := newMode\<rparr>,
          [ConsoleLog ''[ARTIFACT] Version change requested:'',
           ConsoleLog ''[ARTIFACT] Toggling mode from'']))"
| "handleVersionChange (Some documents) v Prev =
     (if currentVersionIndex v > 0 then
        (let newIndex = currentVersionIndex v - 1;
             v1 = v\<lparr>currentVersionIndex := newIndex\<rparr>;
             selectedDoc = js_index documents newIndex
         in case selectedDoc of
              Some d \<Rightarrow>
                if has_content selectedDoc then
                  (showContent d v1,
                   [ConsoleLog ''[ARTIFACT] Version change requested:'',
                    ConsoleLog ''[ARTIFACT] Moving to previous version:'',
                    ConsoleLog ''[ARTIFACT] Updated content with previous version''])
                else
                  (v1,
                   [ConsoleLog ''[ARTIFACT] Version change requested:'',
                    ConsoleLog ''[ARTIFACT] Moving to previous version:'',
                    ConsoleError ''[ARTIFACT] Selected document has no content''])
            | None \<Rightarrow>
                (v1,
                 [ConsoleLog ''[ARTIFACT] Version change requested:'',
                  ConsoleLog ''[ARTIFACT] Moving to previous version:'',
                  ConsoleError ''[ARTIFACT] Selected document has no content'']))
      else
        (v, [ConsoleLog ''[ARTIFACT] Version change requested:'',
             ConsoleLog ''[ARTIFACT] Already at oldest version, cannot go back further'']))"
| "handleVersionChange (Some documents) v Next =
     (if currentVersionIndex v < int (length documents) - 1 then
        (let newIndex = currentVersionIndex v + 1;
             v1 = v\<lparr>currentVersionIndex := newIndex\<rparr>;
             selectedDoc = js_index documents newIndex
         in case selectedDoc of
              Some d \<Rightarrow>
                if has_content selectedDoc then
                  (showContent d v1,
                   [ConsoleLog ''[ARTIFACT] Version change requested:'',
                    ConsoleLog ''[ARTIFACT] Moving to next version:'',
                    ConsoleLog ''[ARTIFACT] Updated content with next version''])
                else
                  (v1,
                   [ConsoleLog ''[ARTIFACT] Version change requested:'',
                    ConsoleLog ''[ARTIFACT] Moving to next version:'',
                    ConsoleError ''[ARTIFACT] Selected document has no content''])
            | None \<Rightarrow>
                (v1,
                 [ConsoleLog ''[ARTIFACT] Version change requested:'',
                  ConsoleLog ''[ARTIFACT] Moving to next version:'',
                  ConsoleError ''[ARTIFACT] Selected document has no content'']))
      else
        (v, [ConsoleLog ''[ARTIFACT] Version change requested:'',
             ConsoleLog ''[ARTIFACT] Already at latest version, cannot go forward'']))"

section \<open>Effects that reconcile the state\<close>

text \<open>
  The effect on \<^verbatim>\<open>[status, artifact.status, setArtifact]\<close>: when the chat request is no
  longer streaming and the artifact still says so, the artifact becomes idle.
\<close>

definition chatStopEffect :: "ChatStatus \<Rightarrow> View \<Rightarrow> View \<times> Event list" where
  "chatStopEffect chatStatus v =
     (if chatStatus \<noteq> ChatStreaming \<and> status (artifact v) = Streaming then
        (v\<lparr>artifact := (artifact v)\<lparr>status := Idle\<rparr>\<rparr>,
         [ConsoleLog ''[ARTIFACT] Chat stopped, updating artifact status to idle''])
      else (v, []))"

text \<open>
  The effect on \<^verbatim>\<open>[documents, setArtifact]\<close>: a non-empty fetched list selects its last
  snapshot, moves the cursor to the last index and shows that snapshot's content.
\<close>

definition documentsEffect :: "Document list option \<Rightarrow> View \<Rightarrow> View \<times> Event list" where
  "documentsEffect documents v =
     (case documents of
        None \<Rightarrow> (v, [])
      | Some ds \<Rightarrow>
          if length ds > 0 then
            (case at_last ds of
               None \<Rightarrow> (v, [])
             | Some mostRecentDocument \<Rightarrow>
                 (v\<lparr>document := Some mostRecentDocument,
                    currentVersionIndex := int (length ds) - 1,
                    artifact := (artifact v)\<lparr>content := Some (or_empty (doc_content mostRecentDocument))\<rparr>\<rparr>,
                  [ConsoleLog ''[ARTIFACT COMPONENT] Setting content from document:'']))
          else (v, []))"

text \<open>\<^verbatim>\<open>isCurrentVersion\<close>, derived on every render.\<close>

definition isCurrentVersion :: "Document list option \<Rightarrow> View \<Rightarrow> bool" where
  "isCurrentVersion documents v =
     (case documents of
        None \<Rightarrow> True
      | Some ds \<Rightarrow> if length ds > 0 then currentVersionIndex v = int (length ds) - 1 else True)"

text \<open>A run of navigation commands over one fetched list.\<close>

fun navigate :: "Document list option \<Rightarrow> View \<Rightarrow> VersionChange list \<Rightarrow> View" where
  "navigate documents v [] = v"
| "navigate documents v (c # cs) = navigate documents (fst (handleVersionChange documents v c)) cs"

definition cursorInRange :: "Document list \<Rightarrow> View \<Rightarrow> bool" where
  "cursorInRange ds v = (0 \<le> currentVersionIndex v \<and> currentVersionIndex v \<le> int (length ds) - 1)"

section \<open>The persistence bridge\<close>

text \<open>
  The network is a parameter. \<open>fetch\<close> takes the state of the world outside the page
  and a request, and gives the response and the next state; \<open>None\<close> is a promise that
  rejects. A response carries \<^verbatim>\<open>ok\<close>, its body as text and, when the body parses as
  a list of snapshots, the result of \<^verbatim>\<open>json()\<close>.
\<close>

record Response =
  resp_ok :: bool
  resp_text :: string
  resp_json :: "Document list option"

type_synonym 'n fetcher = "'n \<Rightarrow> Request \<Rightarrow> Response option \<times> 'n"

datatype Failure = FetchRejected | JsonRejected

definition documentKey :: "UIArtifact \<Rightarrow> string" where
  "documentKey a = ''/api/document?id='' @ documentId a"

definition updateRequest :: "UIArtifact \<Rightarrow> string \<Rightarrow> Request" where
  "updateRequest a updatedContent =
     POST (documentKey a) \<lparr>body_title = title a, body_content = updatedContent, body_kind = kind a\<rparr>"

text \<open>
  The callback \<^verbatim>\<open>async (currentDocuments) => ...\<close> that \<^verbatim>\<open>handleContentChange\<close> gives to
  \<^verbatim>\<open>mutate\<close> has two \<^verbatim>\<open>await\<close>s on the network: for the response to the update
  request and for the response to the re-fetch. It runs in three segments, and other
  handlers of the page may run between them. A segment ends by waiting at the next
  \<^verbatim>\<open>await\<close>, by returning a value, or by a rejection; on its way it may call
  \<^verbatim>\<open>setIsContentDirty(false)\<close> and it emits console lines and requests.
\<close>

datatype Stage = AwaitsUpdate | AwaitsRefetch

datatype Outcome = Awaits Stage | Resolves "Document list option" | Rejects Failure

record Progress =
  outcome :: Outcome
  clearsDirty :: bool
  emits :: "Event list"

text \<open>From the call of the callback to the update request (lines 184 to 208).\<close>

definition mutateCallback_start :: "UIArtifact \<Rightarrow> string \<Rightarrow> Document list option \<Rightarrow> Progress" where
  "mutateCallback_start a updatedContent currentDocuments =
     (case currentDocuments of
        None \<Rightarrow> \<lparr>outcome = Resolves None, clearsDirty = False, emits = []\<rparr>
      | Some docs \<Rightarrow>
          (case at_last docs of
             None \<Rightarrow>
               \<lparr>outcome = Resolves currentDocuments, clearsDirty = True,
                emits = [ConsoleLog ''No current document found, creating new one'']\<rparr>
           | Some currentDocument \<Rightarrow>
               if doc_content currentDocument \<noteq> Some updatedContent then
                 \<lparr>outcome = Awaits AwaitsUpdate, clearsDirty = False,
                  emits = [ConsoleLog ''Content changed, sending update request'',
                           Fetch (updateRequest a updatedContent)]\<rparr>
               else
                 \<lparr>outcome = Resolves currentDocuments, clearsDirty = False,
                  emits = [ConsoleLog ''Content unchanged, skipping update'']\<rparr>))"

text \<open>From the response to the update request to the re-fetch (lines 210 to 224).\<close>

definition mutateCallback_updated :: "UIArtifact \<Rightarrow> Document list option \<Rightarrow> Response option \<Rightarrow> Progress" where
  "mutateCallback_updated a currentDocuments answer =
     (case answer of
        None \<Rightarrow> \<lparr>outcome = Rejects FetchRejected, clearsDirty = False, emits = []\<rparr>
      | Some response \<Rightarrow>
          if \<not> resp_ok response then
            \<lparr>outcome = Resolves currentDocuments, clearsDirty = False,
             emits = [ConsoleError ''Failed to update document:'']\<rparr>
          else
            \<lparr>outcome = Awaits AwaitsRefetch, clearsDirty = True,
             emits = [ConsoleLog ''Document updated successfully'',
                      Fetch (GET (documentKey a))]\<rparr>)"

text \<open>From the response to the re-fetch to the end (lines 225 to 228).\<close>

definition mutateCallback_refetched :: "Document list option \<Rightarrow> Response option \<Rightarrow> Progress" where
  "mutateCallback_refetched currentDocuments answer =
     (case answer of
        None \<Rightarrow> \<lparr>outcome = Rejects FetchRejected, clearsDirty = False, emits = []\<rparr>
      | Some updatedResponse \<Rightarrow>
          if resp_ok updatedResponse then
            (case resp_json updatedResponse of
               None \<Rightarrow> \<lparr>outcome = Rejects JsonRejected, clearsDirty = False, emits = []\<rparr>
             | Some ds \<Rightarrow> \<lparr>outcome = Resolves (Some ds), clearsDirty = False, emits = []\<rparr>)
          else \<lparr>outcome = Resolves currentDocuments, clearsDirty = False, emits = []\<rparr>)"

text \<open>
  A callback that waits at an \<^verbatim>\<open>await\<close>: the artifact and the content that the handler
  closed over, the list that \<^verbatim>\<open>mutate\<close> handed to the callback, the number that the cache
  library gave the mutation when it began, and where the callback waits.
\<close>

record Mutation =
  m_artifact :: UIArtifact
  m_content :: string
  m_documents :: "Document list option"
  m_stamp :: nat
  m_stage :: Stage

text \<open>
  An armed debounce timer: the handler whose debounced function armed it, the artifact
  that this handler closed over, and the payload of the last call.
\<close>

record Timer =
  t_handler :: nat
  t_artifact :: UIArtifact
  t_payload :: string

text \<open>
  The page around the bridge: the component state; the cache of the data-fetching library
  (one entry per key) and, per key, the count of the mutations begun; the identity of the
  current \<^verbatim>\<open>handleContentChange\<close>, which \<^verbatim>\<open>useCallback\<close> renews when the artifact
  changes; the armed debounce timers; the callbacks that wait for the network, oldest
  first; everything emitted so far; and the network.
\<close>

record 'n World =
  view :: View
  cache :: "string \<Rightarrow> Document list option"
  mutationStamp :: "string \<Rightarrow> nat"
  handler :: nat
  timers :: "Timer list"
  mutations :: "Mutation list"
  console :: "Event list"
  network :: 'n

text \<open>
  What a segment of the callback leaves behind. When the callback returns, \<^verbatim>\<open>mutate\<close>
  stores the value under the key, unless another mutation of the same key has begun in
  the meantime; a rejection stores nothing. The revalidation that the library itself
  schedules after a mutation is the library's own read and is not modelled.
\<close>

definition proceed :: "Mutation \<Rightarrow> Progress \<Rightarrow> 'n World \<Rightarrow> 'n World" where
  "proceed m p w =
     (let key = documentKey (m_artifact m);
          w1 = w\<lparr>view := (if clearsDirty p then (view w)\<lparr>isContentDirty := False\<rparr> else view w),
                 console := console w @ emits p\<rparr>
      in case outcome p of
           Awaits stage \<Rightarrow> w1\<lparr>mutations := mutations w1 @ [m\<lparr>m_stage := stage\<rparr>]\<rparr>
         | Resolves r \<Rightarrow>
             if m_stamp m = mutationStamp w1 key then w1\<lparr>cache := (cache w1)(key := r)\<rparr> else w1
         | Rejects e \<Rightarrow> w1)"

text \<open>
  \<^verbatim>\<open>mutate(key, callback, { revalidate: true })\<close>: the library numbers the mutation and
  calls the callback at once on the cached entry of the key; the callback runs up to its
  first \<^verbatim>\<open>await\<close> before \<^verbatim>\<open>mutate\<close> returns.
\<close>

definition mutate :: "UIArtifact \<Rightarrow> string \<Rightarrow> 'n World \<Rightarrow> 'n World" where
  "mutate a updatedContent w =
     (let key = documentKey a;
          stamp = Suc (mutationStamp w key);
          currentDocuments = cache w key;
          m = \<lparr>m_artifact = a, m_content = updatedContent, m_documents = currentDocuments,
               m_stamp = stamp, m_stage = AwaitsUpdate\<rparr>
      in proceed m (mutateCallback_start a updatedContent currentDocuments)
           (w\<lparr>mutationStamp := (mutationStamp w)(key := stamp)\<rparr>))"

text \<open>
  \<^verbatim>\<open>handleContentChange\<close>, for the artifact that the handler closed over. The call does
  not wait for \<^verbatim>\<open>mutate\<close>: it returns when the callback has reached its first \<^verbatim>\<open>await\<close>
  or its end.
\<close>

definition handleContentChange :: "UIArtifact \<Rightarrow> string \<Rightarrow> 'n World \<Rightarrow> 'n World" where
  "handleContentChange a updatedContent w =
     (if documentId a = [] \<or> documentId a = ''init'' then
        w\<lparr>console := console w @ [ConsoleLog ''Cannot update document: invalid artifact state'']\<rparr>
      else
        mutate a updatedContent
          (w\<lparr>console := console w @ [ConsoleLog ''Handling content change:'']\<rparr>))"

text \<open>
  The network answers the request that the \<open>i\<close>-th waiting callback waits for, and the
  callback runs its next segment.
\<close>

definition awaited :: "Mutation \<Rightarrow> Request" where
  "awaited m =
     (case m_stage m of
        AwaitsUpdate \<Rightarrow> updateRequest (m_artifact m) (m_content m)
      | AwaitsRefetch \<Rightarrow> GET (documentKey (m_artifact m)))"

definition resume :: "Mutation \<Rightarrow> Response option \<Rightarrow> Progress" where
  "resume m answer =
     (case m_stage m of
        AwaitsUpdate \<Rightarrow> mutateCallback_updated (m_artifact m) (m_documents m) answer
      | AwaitsRefetch \<Rightarrow> mutateCallback_refetched (m_documents m) answer)"

definition respond :: "'n fetcher \<Rightarrow> nat \<Rightarrow> 'n World \<Rightarrow> 'n World" where
  "respond fetch i w =
     (if i < length (mutations w) then
        (let m = mutations w ! i;
             others = take i (mutations w) @ drop (Suc i) (mutations w)
         in case fetch (network w) (awaited m) of
              (answer, net) \<Rightarrow>
                proceed m (resume m answer) (w\<lparr>mutations := others, network := net\<rparr>))
      else w)"

text \<open>
  \<^verbatim>\<open>useDebounceCallback(handleContentChange, 2000)\<close> is a hook of a third-party library.
  It builds one debounced function per identity of \<^verbatim>\<open>handleContentChange\<close>, each with
  its own timer. A call arms the timer of the current handler's debounced function with
  its payload; a call while that timer is armed replaces the payload and starts the delay
  again. A timer of an earlier handler stays armed. When a timer fires, the handler that
  armed it runs once on the payload, with the artifact it closed over.
\<close>

definition debouncedHandleContentChange :: "string \<Rightarrow> 'n World \<Rightarrow> 'n World" where
  "debouncedHandleContentChange updatedContent w =
     w\<lparr>timers := filter (\<lambda>t. t_handler t \<noteq> handler w) (timers w)
                   @ [\<lparr>t_handler = handler w, t_artifact = artifact (view w),
                       t_payload = updatedContent\<rparr>]\<rparr>"

definition timerFires :: "nat \<Rightarrow> 'n World \<Rightarrow> 'n World" where
  "timerFires i w =
     (if i < length (timers w) then
        (let t = timers w ! i;
             others = take i (timers w) @ drop (Suc i) (timers w)
         in handleContentChange (t_artifact t) (t_payload t) (w\<lparr>timers := others\<rparr>))
      else w)"

text \<open>\<^verbatim>\<open>saveContent\<close>, with the handlers of the current render.\<close>

definition saveContent :: "string \<Rightarrow> bool \<Rightarrow> 'n World \<Rightarrow> 'n World" where
  "saveContent updatedContent debounce w =
     (case document (view w) of
        None \<Rightarrow> w
      | Some d \<Rightarrow>
          if Some updatedContent \<noteq> doc_content d then
            (let w1 = w\<lparr>view := (view w)\<lparr>isContentDirty := True\<rparr>\<rparr>
             in if debounce then debouncedHandleContentChange updatedContent w1
                else handleContentChange (artifact (view w1)) updatedContent w1)
          else w)"

text \<open>
  The artifact changes (\<^verbatim>\<open>setArtifact\<close>): the next render has a new
  \<^verbatim>\<open>handleContentChange\<close>, and with it a new debounced function.
\<close>

definition setArtifact :: "(UIArtifact \<Rightarrow> UIArtifact) \<Rightarrow> 'n World \<Rightarrow> 'n World" where
  "setArtifact f w =
     w\<lparr>view := (view w)\<lparr>artifact := f (artifact (view w))\<rparr>, handler := Suc (handler w)\<rparr>"

text \<open>The requests in a trace, and the update requests among them.\<close>

fun requests :: "Event list \<Rightarrow> Request list" where
  "requests [] = []"
| "requests (Fetch r # es) = r # requests es"
| "requests (e # es) = requests es"

fun isWrite :: "Request \<Rightarrow> bool" where
  "isWrite (POST url b) = True"
| "isWrite (GET url) = False"

definition writes :: "Event list \<Rightarrow> Request list" where
  "writes es = filter isWrite (requests es)"

section \<open>Sample data\<close>

definition sampleArtifact :: UIArtifact where
  "sampleArtifact =
     \<lparr>title = ''Notes'', documentId = ''d1'', kind = Text, content = Some ''x'',
      isVisible = True, status = Idle,
      boundingBox = \<lparr>bb_top = 0, bb_left = 0, bb_width = 0, bb_height = 0\<rparr>,
      language = None\<rparr>"

definition snapshot :: "string option \<Rightarrow> int \<Rightarrow> Document" where
  "snapshot c t =
     \<lparr>doc_id = ''d1'', doc_title = ''Notes'', doc_kind = Text, doc_content = c,
      doc_userId = ''u1'', doc_createdAt = t, doc_is_latest = True, doc_version = ''1''\<rparr>"

definition sampleView :: View where
  "sampleView =
     \<lparr>artifact = sampleArtifact, mode = Edit, document = None,
      currentVersionIndex = 0, isContentDirty = False\<rparr>"

text \<open>
  Two sample servers behind \<open>fetch\<close>. The document API is a collaborator of the
  component. \<open>appendingServer\<close> persists a new snapshot on every update request and
  returns the ordered list on a read, as the specification describes the API;
  \<open>refusingServer\<close> answers every request with a response that is not ok.
\<close>

definition appendingServer :: "Document list fetcher" where
  "appendingServer store r =
     (case r of
        POST url b \<Rightarrow>
          (Some \<lparr>resp_ok = True, resp_text = [], resp_json = None\<rparr>,
           store @ [\<lparr>doc_id = ''d1'', doc_title = body_title b, doc_kind = body_kind b,
                     doc_content = Some (body_content b), doc_userId = ''u1'',
                     doc_createdAt = int (length store), doc_is_latest = True,
                     doc_version = ''1''\<rparr>])
      | GET url \<Rightarrow> (Some \<lparr>resp_ok = True, resp_text = [], resp_json = Some store\<rparr>, store))"

definition refusingServer :: "unit fetcher" where
  "refusingServer u r = (Some \<lparr>resp_ok = False, resp_text = ''error'', resp_json = None\<rparr>, u)"

definition sampleWorld :: "Document list \<Rightarrow> 'n \<Rightarrow> 'n World" where
  "sampleWorld ds n =
     \<lparr>view = sampleView\<lparr>document := at_last ds\<rparr>,
      cache = (\<lambda>k. None)(''/api/document?id=d1'' := Some ds),
      mutationStamp = (\<lambda>k. 0), handler = 0, timers = [], mutations = [],
      console = [], network = n\<rparr>"

definition docsABC :: "Document list" where
  "docsABC = [snapshot (Some ''a'') 0, snapshot (Some ''b'') 1, snapshot (Some ''c'') 2]"

definition docsGap :: "Document list" where
  "docsGap = [snapshot None 0, snapshot (Some ''b'') 1, snapshot None 2]"

definition docsBlank :: "Document list" where
  "docsBlank = [snapshot (Some []) 0, snapshot (Some ''b'') 1, snapshot (Some []) 2]"

definition initWorld :: "Document list World" where
  "initWorld =
     \<lparr>view = sampleView\<lparr>artifact := sampleArtifact\<lparr>documentId := ''init''\<rparr>,
                        document := Some (snapshot (Some ''a'') 0)\<rparr>,
      cache = (\<lambda>k. None), mutationStamp = (\<lambda>k. 0), handler = 0, timers = [],
      mutations = [], console = [], network = []\<rparr>"

section \<open>Reading a version never fails\<close>

lemma js_index_None_iff: "js_index xs i = None \<longleftrightarrow> i < 0 \<or> int (length xs) \<le> i"
  by (auto simp: js_index_def)

lemma js_index_Some_iff:
  "js_index xs i = Some x \<longleftrightarrow> 0 \<le> i \<and> i < int (length xs) \<and> xs ! nat i = x"
  by (auto simp: js_index_def)

text \<open>
  Claim C10. \<^verbatim>\<open>getDocumentContentById\<close> is defined for every integer index and always
  returns a string: the empty string when the document list is absent, when the index is
  below zero or not below the length, and when the snapshot at the index has null content.
\<close>

theorem getDocumentContentById_total:
  assumes "documents = None
     \<or> (\<exists>ds. documents = Some ds
           \<and> (index < 0 \<or> int (length ds) \<le> index \<or> doc_content (ds ! nat index) = None))"
  shows "getDocumentContentById documents index = []"
  using assms
  by (auto simp: getDocumentContentById_def js_index_def or_empty_def)

theorem getDocumentContentById_total_witness:
  "getDocumentContentById None 0 = []
   \<and> getDocumentContentById (Some [snapshot (Some ''a'') 0]) (- 1) = []
   \<and> getDocumentContentById (Some [snapshot (Some ''a'') 0]) 1 = []
   \<and> getDocumentContentById (Some [snapshot None 0]) 0 = []"
  using getDocumentContentById_total [of None 0]
    getDocumentContentById_total [of "Some [snapshot (Some ''a'') 0]" "- 1"]
    getDocumentContentById_total [of "Some [snapshot (Some ''a'') 0]" 1]
    getDocumentContentById_total [of "Some [snapshot None 0]" 0]
  by (simp add: snapshot_def)

section \<open>The version cursor\<close>

lemma js_index_bounds: "js_index xs i = Some x \<Longrightarrow> 0 \<le> i \<and> i < int (length xs)"
  by (simp add: js_index_def split: if_splits)

lemma js_index_last: "ds \<noteq> [] \<Longrightarrow> js_index ds (int (length ds) - 1) = Some (last ds)"
  by (cases ds rule: rev_cases) (auto simp: js_index_def nth_append)

lemma js_index_update:
  "js_index xs i = Some x \<Longrightarrow> js_index (xs[nat i := y]) i = Some y"
  by (auto simp: js_index_def split: if_splits)

lemma handleVersionChange_in_range:
  assumes "ds \<noteq> []" and "cursorInRange ds v"
  shows "cursorInRange ds (fst (handleVersionChange (Some ds) v c))"
  using assms
  by (cases c) (auto simp: cursorInRange_def showContent_def Let_def split: option.splits)

lemma navigate_in_range:
  "ds \<noteq> [] \<Longrightarrow> cursorInRange ds v \<Longrightarrow> cursorInRange ds (navigate (Some ds) v cmds)"
proof (induction cmds arbitrary: v)
  case Nil
  then show ?case by simp
next
  case (Cons c cs)
  from Cons.prems have "cursorInRange ds (fst (handleVersionChange (Some ds) v c))"
    by (rule handleVersionChange_in_range)
  with Cons.IH Cons.prems(1) show ?case by simp
qed

lemma documentsEffect_in_range:
  "ds \<noteq> [] \<Longrightarrow> cursorInRange ds (fst (documentsEffect (Some ds) v))"
  by (cases ds) (auto simp: documentsEffect_def cursorInRange_def at_last_def)

lemma prev_at_oldest: "currentVersionIndex v = 0 \<Longrightarrow> fst (handleVersionChange (Some ds) v Prev) = v"
  by simp

lemma next_at_latest:
  "currentVersionIndex v = int (length ds) - 1 \<Longrightarrow> fst (handleVersionChange (Some ds) v Next) = v"
  by simp

text \<open>
  Claim C1. While the fetched document list is non-empty, the version cursor stays within
  \<open>0\<close> and \<open>length - 1\<close>: the effect that follows a fetch puts it there, and every
  sequence of the commands prev, next, toggle and latest keeps it there. Prev at cursor
  \<open>0\<close> and next at cursor \<open>length - 1\<close> return the state they were given.
\<close>

theorem cursor_stays_in_range:
  assumes "ds \<noteq> []"
  shows "cursorInRange ds (fst (documentsEffect (Some ds) v0))
       \<and> (cursorInRange ds v \<longrightarrow> cursorInRange ds (navigate (Some ds) v cmds))
       \<and> (currentVersionIndex v = 0 \<longrightarrow> fst (handleVersionChange (Some ds) v Prev) = v)
       \<and> (currentVersionIndex v = int (length ds) - 1 \<longrightarrow>
            fst (handleVersionChange (Some ds) v Next) = v)"
  using assms navigate_in_range documentsEffect_in_range prev_at_oldest next_at_latest
  by blast

theorem cursor_stays_in_range_witness:
  "docsABC \<noteq> []
   \<and> cursorInRange docsABC (sampleView\<lparr>currentVersionIndex := 0\<rparr>)
   \<and> cursorInRange docsABC (navigate (Some docsABC) (sampleView\<lparr>currentVersionIndex := 0\<rparr>)
         [Prev, Next, Next, Next, Toggle, Prev, Latest, Next])
   \<and> fst (handleVersionChange (Some docsABC) (sampleView\<lparr>currentVersionIndex := 0\<rparr>) Prev)
        = sampleView\<lparr>currentVersionIndex := 0\<rparr>
   \<and> currentVersionIndex (sampleView\<lparr>currentVersionIndex := 2\<rparr>) = int (length docsABC) - 1
   \<and> fst (handleVersionChange (Some docsABC) (sampleView\<lparr>currentVersionIndex := 2\<rparr>) Next)
        = sampleView\<lparr>currentVersionIndex := 2\<rparr>"
  using cursor_stays_in_range [where ds = docsABC and v = "sampleView\<lparr>currentVersionIndex := 0\<rparr>"
      and cmds = "[Prev, Next, Next, Next, Toggle, Prev, Latest, Next]"]
    cursor_stays_in_range [where ds = docsABC and v = "sampleView\<lparr>currentVersionIndex := 2\<rparr>"]
  by (simp add: docsABC_def cursorInRange_def has_content_def snapshot_def js_index_def
      Let_def showContent_def)

section \<open>The commands latest and toggle\<close>

text \<open>
  Claim C3, as stated, fails: a last snapshot whose content is the empty string is not
  copied. The list holds \<open>''x''\<close> and then the empty string. After the fetch the user
  steps back to the first version, so the artifact shows \<open>''x''\<close>; after latest the
  cursor is on the last snapshot and the artifact still shows \<open>''x''\<close>.
\<close>

theorem latest_empty_content_counterexample:
  "doc_content (last [snapshot (Some ''x'') 0, snapshot (Some []) 1]) = Some []
   \<and> currentVersionIndex (navigate (Some [snapshot (Some ''x'') 0, snapshot (Some []) 1])
        (fst (documentsEffect (Some [snapshot (Some ''x'') 0, snapshot (Some []) 1]) sampleView))
        [Prev, Latest]) = 1
   \<and> content (artifact (navigate (Some [snapshot (Some ''x'') 0, snapshot (Some []) 1])
        (fst (documentsEffect (Some [snapshot (Some ''x'') 0, snapshot (Some []) 1]) sampleView))
        [Prev, Latest])) = Some ''x''"
  by (simp add: sampleView_def sampleArtifact_def snapshot_def js_index_def has_content_def
      documentsEffect_def at_last_def or_empty_def showContent_def Let_def)

text \<open>
  Claim C3, amended. On a non-empty list, latest sets the cursor to the last index and the
  mode to edit; when the last snapshot's content is a non-empty string it also copies that
  content into the artifact and sets the status to idle, and otherwise it leaves the
  artifact as it was. On an empty list latest returns the state it was given.
\<close>

theorem latest_moves_to_last:
  "(ds \<noteq> [] \<and> has_content (Some (last ds)) \<longrightarrow>
      fst (handleVersionChange (Some ds) v Latest)
        = v\<lparr>currentVersionIndex := int (length ds) - 1, mode := Edit,
             artifact := (artifact v)\<lparr>content := doc_content (last ds), status := Idle\<rparr>\<rparr>)
   \<and> (ds \<noteq> [] \<and> \<not> has_content (Some (last ds)) \<longrightarrow>
      fst (handleVersionChange (Some ds) v Latest)
        = v\<lparr>currentVersionIndex := int (length ds) - 1, mode := Edit\<rparr>)
   \<and> fst (handleVersionChange (Some []) v Latest) = v"
  by (auto simp: js_index_last Let_def showContent_def has_content_def or_empty_def
      split: option.splits)

theorem latest_moves_to_last_witness:
  "docsABC \<noteq> [] \<and> has_content (Some (last docsABC))
   \<and> fst (handleVersionChange (Some docsABC) sampleView Latest)
       = sampleView\<lparr>currentVersionIndex := 2, mode := Edit,
                    artifact := sampleArtifact\<lparr>content := Some ''c'', status := Idle\<rparr>\<rparr>
   \<and> \<not> has_content (Some (last [snapshot None 0]))
   \<and> fst (handleVersionChange (Some [snapshot None 0]) (sampleView\<lparr>mode := Diff\<rparr>) Latest)
       = sampleView\<lparr>currentVersionIndex := 0, mode := Edit\<rparr>"
  using latest_moves_to_last [of docsABC sampleView]
    latest_moves_to_last [of "[snapshot None 0]" "sampleView\<lparr>mode := Diff\<rparr>"]
  by (simp add: docsABC_def sampleView_def snapshot_def has_content_def)

text \<open>
  Claim C8, as stated, fails: while no document list has been fetched the handler
  returns before it looks at the command, and toggle leaves the mode as it was.
\<close>

theorem toggle_without_documents_counterexample:
  "mode sampleView = Edit \<and> mode (fst (handleVersionChange None sampleView Toggle)) = Edit"
  by (simp add: sampleView_def)

text \<open>
  Claim C8, amended. When a document list has been fetched (empty or not), toggle flips
  the display mode between edit and diff and changes nothing else, so the cursor and the
  artifact, with its content, stay as they were. Without a fetched list toggle returns
  the state it was given.
\<close>

theorem toggle_flips_mode:
  "fst (handleVersionChange (Some ds) v Toggle) = v\<lparr>mode := (if mode v = Edit then Diff else Edit)\<rparr>
   \<and> currentVersionIndex (fst (handleVersionChange (Some ds) v Toggle)) = currentVersionIndex v
   \<and> artifact (fst (handleVersionChange (Some ds) v Toggle)) = artifact v
   \<and> fst (handleVersionChange None v Toggle) = v"
  by simp

theorem toggle_flips_mode_witness:
  "mode (fst (handleVersionChange (Some []) sampleView Toggle)) = Diff
   \<and> mode (fst (handleVersionChange (Some docsABC)
        (fst (handleVersionChange (Some docsABC) sampleView Toggle)) Toggle)) = Edit"
  using toggle_flips_mode [of "[]" sampleView]
    toggle_flips_mode [of docsABC "fst (handleVersionChange (Some docsABC) sampleView Toggle)"]
    toggle_flips_mode [of docsABC sampleView]
  by (simp add: sampleView_def)

section \<open>Snapshots without content\<close>

lemma prev_no_content:
  assumes "js_index ds (currentVersionIndex v - 1) = Some d" and "\<not> has_content (Some d)"
  shows "handleVersionChange (Some ds) v Prev =
           (v\<lparr>currentVersionIndex := currentVersionIndex v - 1\<rparr>,
            [ConsoleLog ''[ARTIFACT] Version change requested:'',
             ConsoleLog ''[ARTIFACT] Moving to previous version:'',
             ConsoleError ''[ARTIFACT] Selected document has no content''])"
proof -
  from assms(1) have "0 < currentVersionIndex v"
    by (auto dest: js_index_bounds)
  with assms show ?thesis by (simp add: Let_def)
qed

lemma next_no_content:
  assumes "js_index ds (currentVersionIndex v + 1) = Some d" and "\<not> has_content (Some d)"
  shows "handleVersionChange (Some ds) v Next =
           (v\<lparr>currentVersionIndex := currentVersionIndex v + 1\<rparr>,
            [ConsoleLog ''[ARTIFACT] Version change requested:'',
             ConsoleLog ''[ARTIFACT] Moving to next version:'',
             ConsoleError ''[ARTIFACT] Selected document has no content''])"
proof -
  from assms(1) have "currentVersionIndex v < int (length ds) - 1"
    by (auto dest: js_index_bounds)
  with assms show ?thesis by (simp add: Let_def)
qed

lemma latest_no_content:
  assumes "js_index ds (int (length ds) - 1) = Some d" and "\<not> has_content (Some d)"
  shows "handleVersionChange (Some ds) v Latest =
           (v\<lparr>currentVersionIndex := int (length ds) - 1, mode := Edit\<rparr>,
            [ConsoleLog ''[ARTIFACT] Version change requested:'',
             ConsoleLog ''[ARTIFACT] Setting to latest version:'',
             ConsoleError ''[ARTIFACT] Latest document has no content''])"
proof -
  from assms(1) have "ds \<noteq> []"
    by (auto dest: js_index_bounds)
  with assms show ?thesis by (simp add: Let_def)
qed

lemma null_content_not_has: "doc_content d = None \<Longrightarrow> \<not> has_content (Some d)"
  by (simp add: has_content_def)

lemma empty_content_not_has: "doc_content d = Some [] \<Longrightarrow> \<not> has_content (Some d)"
  by (simp add: has_content_def)

text \<open>
  Claim C6. A prev or next command whose target snapshot has null content is not fatal:
  the cursor moves to the target index, the rest of the state, with the artifact's
  content, stays as it was, and the last line emitted is the error report.
\<close>

theorem missing_content_still_moves_cursor:
  "(js_index ds (currentVersionIndex v - 1) = Some d \<and> doc_content d = None \<longrightarrow>
      fst (handleVersionChange (Some ds) v Prev) = v\<lparr>currentVersionIndex := currentVersionIndex v - 1\<rparr>
      \<and> content (artifact (fst (handleVersionChange (Some ds) v Prev))) = content (artifact v)
      \<and> last (snd (handleVersionChange (Some ds) v Prev))
          = ConsoleError ''[ARTIFACT] Selected document has no content'')
   \<and> (js_index ds (currentVersionIndex v + 1) = Some d' \<and> doc_content d' = None \<longrightarrow>
      fst (handleVersionChange (Some ds) v Next) = v\<lparr>currentVersionIndex := currentVersionIndex v + 1\<rparr>
      \<and> content (artifact (fst (handleVersionChange (Some ds) v Next))) = content (artifact v)
      \<and> last (snd (handleVersionChange (Some ds) v Next))
          = ConsoleError ''[ARTIFACT] Selected document has no content'')"
proof (intro conjI impI)
  assume h: "js_index ds (currentVersionIndex v - 1) = Some d \<and> doc_content d = None"
  then have e: "handleVersionChange (Some ds) v Prev =
           (v\<lparr>currentVersionIndex := currentVersionIndex v - 1\<rparr>,
            [ConsoleLog ''[ARTIFACT] Version change requested:'',
             ConsoleLog ''[ARTIFACT] Moving to previous version:'',
             ConsoleError ''[ARTIFACT] Selected document has no content''])"
    using prev_no_content null_content_not_has by blast
  show "fst (handleVersionChange (Some ds) v Prev) = v\<lparr>currentVersionIndex := currentVersionIndex v - 1\<rparr>"
    by (simp only: e fst_conv)
  show "content (artifact (fst (handleVersionChange (Some ds) v Prev))) = content (artifact v)"
    by (simp only: e fst_conv) simp
  show "last (snd (handleVersionChange (Some ds) v Prev))
          = ConsoleError ''[ARTIFACT] Selected document has no content''"
    by (simp only: e snd_conv) simp
next
  assume h: "js_index ds (currentVersionIndex v + 1) = Some d' \<and> doc_content d' = None"
  then have e: "handleVersionChange (Some ds) v Next =
           (v\<lparr>currentVersionIndex := currentVersionIndex v + 1\<rparr>,
            [ConsoleLog ''[ARTIFACT] Version change requested:'',
             ConsoleLog ''[ARTIFACT] Moving to next version:'',
             ConsoleError ''[ARTIFACT] Selected document has no content''])"
    using next_no_content null_content_not_has by blast
  show "fst (handleVersionChange (Some ds) v Next) = v\<lparr>currentVersionIndex := currentVersionIndex v + 1\<rparr>"
    by (simp only: e fst_conv)
  show "content (artifact (fst (handleVersionChange (Some ds) v Next))) = content (artifact v)"
    by (simp only: e fst_conv) simp
  show "last (snd (handleVersionChange (Some ds) v Next))
          = ConsoleError ''[ARTIFACT] Selected document has no content''"
    by (simp only: e snd_conv) simp
qed

theorem missing_content_still_moves_cursor_witness:
  "js_index docsGap (currentVersionIndex (sampleView\<lparr>currentVersionIndex := 1\<rparr>) - 1) = Some (snapshot None 0)
   \<and> js_index docsGap (currentVersionIndex (sampleView\<lparr>currentVersionIndex := 1\<rparr>) + 1) = Some (snapshot None 2)
   \<and> doc_content (snapshot None 0) = None \<and> doc_content (snapshot None 2) = None
   \<and> fst (handleVersionChange (Some docsGap) (sampleView\<lparr>currentVersionIndex := 1\<rparr>) Prev)
       = sampleView\<lparr>currentVersionIndex := 0\<rparr>
   \<and> fst (handleVersionChange (Some docsGap) (sampleView\<lparr>currentVersionIndex := 1\<rparr>) Next)
       = sampleView\<lparr>currentVersionIndex := 2\<rparr>"
  using missing_content_still_moves_cursor
    [of docsGap "sampleView\<lparr>currentVersionIndex := 1\<rparr>" "snapshot None 0" "snapshot None 2"]
  by (simp add: docsGap_def js_index_def snapshot_def)

text \<open>
  Claim C9. A prev, next or latest command whose target snapshot's content is the empty
  string does exactly what it does when that content is null: the cursor moves (and
  latest sets the mode to edit), and the artifact, with its content and status, stays
  as it was.
\<close>

theorem empty_content_treated_as_missing:
  "(js_index ds (currentVersionIndex v - 1) = Some d \<and> doc_content d = Some [] \<longrightarrow>
      fst (handleVersionChange (Some ds) v Prev) = v\<lparr>currentVersionIndex := currentVersionIndex v - 1\<rparr>
      \<and> handleVersionChange (Some ds) v Prev
          = handleVersionChange (Some (ds[nat (currentVersionIndex v - 1) := d\<lparr>doc_content := None\<rparr>])) v Prev)
   \<and> (js_index ds (currentVersionIndex v + 1) = Some d' \<and> doc_content d' = Some [] \<longrightarrow>
      fst (handleVersionChange (Some ds) v Next) = v\<lparr>currentVersionIndex := currentVersionIndex v + 1\<rparr>
      \<and> handleVersionChange (Some ds) v Next
          = handleVersionChange (Some (ds[nat (currentVersionIndex v + 1) := d'\<lparr>doc_content := None\<rparr>])) v Next)
   \<and> (js_index ds (int (length ds) - 1) = Some d'' \<and> doc_content d'' = Some [] \<longrightarrow>
      fst (handleVersionChange (Some ds) v Latest)
          = v\<lparr>currentVersionIndex := int (length ds) - 1, mode := Edit\<rparr>
      \<and> handleVersionChange (Some ds) v Latest
          = handleVersionChange (Some (ds[nat (int (length ds) - 1) := d''\<lparr>doc_content := None\<rparr>])) v Latest)"
proof (intro conjI impI)
  assume h: "js_index ds (currentVersionIndex v - 1) = Some d \<and> doc_content d = Some []"
  let ?ds' = "ds[nat (currentVersionIndex v - 1) := d\<lparr>doc_content := None\<rparr>]"
  from h have a: "handleVersionChange (Some ds) v Prev =
           (v\<lparr>currentVersionIndex := currentVersionIndex v - 1\<rparr>,
            [ConsoleLog ''[ARTIFACT] Version change requested:'',
             ConsoleLog ''[ARTIFACT] Moving to previous version:'',
             ConsoleError ''[ARTIFACT] Selected document has no content''])"
    using prev_no_content empty_content_not_has by blast
  from h have "js_index ?ds' (currentVersionIndex v - 1) = Some (d\<lparr>doc_content := None\<rparr>)"
    by (simp add: js_index_update)
  then have b: "handleVersionChange (Some ?ds') v Prev =
           (v\<lparr>currentVersionIndex := currentVersionIndex v - 1\<rparr>,
            [ConsoleLog ''[ARTIFACT] Version change requested:'',
             ConsoleLog ''[ARTIFACT] Moving to previous version:'',
             ConsoleError ''[ARTIFACT] Selected document has no content''])"
    by (rule prev_no_content) (simp add: has_content_def)
  show "fst (handleVersionChange (Some ds) v Prev) = v\<lparr>currentVersionIndex := currentVersionIndex v - 1\<rparr>"
    by (simp only: a fst_conv)
  show "handleVersionChange (Some ds) v Prev = handleVersionChange (Some ?ds') v Prev"
    by (simp only: a b)
next
  assume h: "js_index ds (currentVersionIndex v + 1) = Some d' \<and> doc_content d' = Some []"
  let ?ds' = "ds[nat (currentVersionIndex v + 1) := d'\<lparr>doc_content := None\<rparr>]"
  from h have a: "handleVersionChange (Some ds) v Next =
           (v\<lparr>currentVersionIndex := currentVersionIndex v + 1\<rparr>,
            [ConsoleLog ''[ARTIFACT] Version change requested:'',
             ConsoleLog ''[ARTIFACT] Moving to next version:'',
             ConsoleError ''[ARTIFACT] Selected document has no content''])"
    using next_no_content empty_content_not_has by blast
  from h have "js_index ?ds' (currentVersionIndex v + 1) = Some (d'\<lparr>doc_content := None\<rparr>)"
    by (simp add: js_index_update)
  then have b: "handleVersionChange (Some ?ds') v Next =
           (v\<lparr>currentVersionIndex := currentVersionIndex v + 1\<rparr>,
            [ConsoleLog ''[ARTIFACT] Version change requested:'',
             ConsoleLog ''[ARTIFACT] Moving to next version:'',
             ConsoleError ''[ARTIFACT] Selected document has no content''])"
    by (rule next_no_content) (simp add: has_content_def)
  show "fst (handleVersionChange (Some ds) v Next) = v\<lparr>currentVersionIndex := currentVersionIndex v + 1\<rparr>"
    by (simp only: a fst_conv)
  show "handleVersionChange (Some ds) v Next = handleVersionChange (Some ?ds') v Next"
    by (simp only: a b)
next
  assume h: "js_index ds (int (length ds) - 1) = Some d'' \<and> doc_content d'' = Some []"
  let ?ds' = "ds[nat (int (length ds) - 1) := d''\<lparr>doc_content := None\<rparr>]"
  from h have a: "handleVersionChange (Some ds) v Latest =
           (v\<lparr>currentVersionIndex := int (length ds) - 1, mode := Edit\<rparr>,
            [ConsoleLog ''[ARTIFACT] Version change requested:'',
             ConsoleLog ''[ARTIFACT] Setting to latest version:'',
             ConsoleError ''[ARTIFACT] Latest document has no content''])"
    using latest_no_content empty_content_not_has by blast
  from h have "js_index ?ds' (int (length ds) - 1) = Some (d''\<lparr>doc_content := None\<rparr>)"
    by (simp add: js_index_update)
  then have "js_index ?ds' (int (length ?ds') - 1) = Some (d''\<lparr>doc_content := None\<rparr>)"
    by simp
  then have "handleVersionChange (Some ?ds') v Latest =
           (v\<lparr>currentVersionIndex := int (length ?ds') - 1, mode := Edit\<rparr>,
            [ConsoleLog ''[ARTIFACT] Version change requested:'',
             ConsoleLog ''[ARTIFACT] Setting to latest version:'',
             ConsoleError ''[ARTIFACT] Latest document has no content''])"
    by (rule latest_no_content) (simp add: has_content_def)
  then have b: "handleVersionChange (Some ?ds') v Latest =
           (v\<lparr>currentVersionIndex := int (length ds) - 1, mode := Edit\<rparr>,
            [ConsoleLog ''[ARTIFACT] Version change requested:'',
             ConsoleLog ''[ARTIFACT] Setting to latest version:'',
             ConsoleError ''[ARTIFACT] Latest document has no content''])"
    by simp
  show "fst (handleVersionChange (Some ds) v Latest)
          = v\<lparr>currentVersionIndex := int (length ds) - 1, mode := Edit\<rparr>"
    by (simp only: a fst_conv)
  show "handleVersionChange (Some ds) v Latest = handleVersionChange (Some ?ds') v Latest"
    by (simp only: a b)
qed

theorem empty_content_treated_as_missing_witness:
  "js_index docsBlank (currentVersionIndex (sampleView\<lparr>currentVersionIndex := 1\<rparr>) - 1) = Some (snapshot (Some []) 0)
   \<and> js_index docsBlank (currentVersionIndex (sampleView\<lparr>currentVersionIndex := 1\<rparr>) + 1) = Some (snapshot (Some []) 2)
   \<and> js_index docsBlank (int (length docsBlank) - 1) = Some (snapshot (Some []) 2)
   \<and> doc_content (snapshot (Some []) 0) = Some [] \<and> doc_content (snapshot (Some []) 2) = Some []
   \<and> fst (handleVersionChange (Some docsBlank) (sampleView\<lparr>currentVersionIndex := 1\<rparr>) Prev)
       = sampleView\<lparr>currentVersionIndex := 0\<rparr>
   \<and> fst (handleVersionChange (Some docsBlank) (sampleView\<lparr>currentVersionIndex := 1\<rparr>) Next)
       = sampleView\<lparr>currentVersionIndex := 2\<rparr>
   \<and> fst (handleVersionChange (Some docsBlank) (sampleView\<lparr>currentVersionIndex := 1\<rparr>) Latest)
       = sampleView\<lparr>currentVersionIndex := 2, mode := Edit\<rparr>"
  using empty_content_treated_as_missing
    [of docsBlank "sampleView\<lparr>currentVersionIndex := 1\<rparr>" "snapshot (Some []) 0"
        "snapshot (Some []) 2" "snapshot (Some []) 2"]
  by (simp add: docsBlank_def js_index_def snapshot_def has_content_def Let_def)

section \<open>The chat stops\<close>

text \<open>
  Claim C5. When the chat request is not streaming and the artifact's status is
  streaming, the effect sets the artifact's status to idle and changes nothing else;
  so after the effect, an artifact under a chat that is not streaming is idle.
\<close>

theorem chat_stop_forces_idle:
  "(chatStatus \<noteq> ChatStreaming \<and> status (artifact v) = Streaming \<longrightarrow>
      fst (chatStopEffect chatStatus v) = v\<lparr>artifact := (artifact v)\<lparr>status := Idle\<rparr>\<rparr>)
   \<and> (chatStatus \<noteq> ChatStreaming \<longrightarrow> status (artifact (fst (chatStopEffect chatStatus v))) = Idle)"
  by (cases "status (artifact v)") (simp_all add: chatStopEffect_def)

theorem chat_stop_forces_idle_witness:
  "ChatReady \<noteq> ChatStreaming
   \<and> status (artifact (sampleView\<lparr>artifact := sampleArtifact\<lparr>status := Streaming\<rparr>\<rparr>)) = Streaming
   \<and> fst (chatStopEffect ChatReady (sampleView\<lparr>artifact := sampleArtifact\<lparr>status := Streaming\<rparr>\<rparr>))
       = sampleView\<lparr>artifact := sampleArtifact\<lparr>status := Idle\<rparr>\<rparr>
   \<and> status (artifact (fst (chatStopEffect ChatReady
         (sampleView\<lparr>artifact := sampleArtifact\<lparr>status := Streaming\<rparr>\<rparr>)))) = Idle"
  using chat_stop_forces_idle [of ChatReady "sampleView\<lparr>artifact := sampleArtifact\<lparr>status := Streaming\<rparr>\<rparr>"]
  by (simp add: sampleView_def)

section \<open>The persistence bridge: what reaches the network\<close>

lemma requests_append: "requests (xs @ ys) = requests xs @ requests ys"
  by (induction xs rule: requests.induct) simp_all

lemma writes_append: "writes (xs @ ys) = writes xs @ writes ys"
  by (simp add: writes_def requests_append)

lemma handleContentChange_guard:
  assumes "documentId a = [] \<or> documentId a = ''init''"
  shows "handleContentChange a c w =
           w\<lparr>console := console w @ [ConsoleLog ''Cannot update document: invalid artifact state'']\<rparr>"
  using assms by (auto simp: handleContentChange_def)

lemma handleContentChange_unchanged:
  assumes "documentId a \<noteq> []" and "documentId a \<noteq> ''init''"
    and "cache w (documentKey a) = Some docs"
    and "at_last docs = Some cur" and "doc_content cur = Some c"
  shows "handleContentChange a c w =
           w\<lparr>mutationStamp := (mutationStamp w)(documentKey a := Suc (mutationStamp w (documentKey a))),
             console := console w @ [ConsoleLog ''Handling content change:'',
                                      ConsoleLog ''Content unchanged, skipping update'']\<rparr>"
proof -
  have k: "(cache w)(documentKey a := Some docs) = cache w"
    using assms(3) by (simp add: fun_upd_idem)
  show ?thesis
    using assms
    by (simp add: handleContentChange_def mutate_def proceed_def mutateCallback_start_def Let_def k)
qed

lemma handleContentChange_changed:
  assumes "documentId a \<noteq> []" and "documentId a \<noteq> ''init''"
    and "cache w (documentKey a) = Some docs"
    and "at_last docs = Some cur" and "doc_content cur \<noteq> Some c"
  shows "handleContentChange a c w =
           w\<lparr>mutationStamp := (mutationStamp w)(documentKey a := Suc (mutationStamp w (documentKey a))),
             mutations := mutations w @
               [\<lparr>m_artifact = a, m_content = c, m_documents = Some docs,
                 m_stamp = Suc (mutationStamp w (documentKey a)), m_stage = AwaitsUpdate\<rparr>],
             console := console w @ [ConsoleLog ''Handling content change:'',
                                      ConsoleLog ''Content changed, sending update request'',
                                      Fetch (updateRequest a c)]\<rparr>"
  using assms
  by (simp add: handleContentChange_def mutate_def proceed_def mutateCallback_start_def Let_def)


lemma respond_update_accepted:
  assumes "mutations w = ms @ [m]" and "m_stage m = AwaitsUpdate"
    and "fetch (network w) (updateRequest (m_artifact m) (m_content m)) = (Some response, net1)"
    and "resp_ok response"
  shows "respond fetch (length ms) w =
           w\<lparr>view := (view w)\<lparr>isContentDirty := False\<rparr>,
             mutations := ms @ [m\<lparr>m_stage := AwaitsRefetch\<rparr>],
             console := console w @ [ConsoleLog ''Document updated successfully'',
                                      Fetch (GET (documentKey (m_artifact m)))],
             network := net1\<rparr>"
  using assms
  by (simp add: respond_def awaited_def resume_def mutateCallback_updated_def proceed_def Let_def)

lemma respond_refetch_accepted:
  assumes "mutations w = ms @ [m]" and "m_stage m = AwaitsRefetch"
    and "m_stamp m = mutationStamp w (documentKey (m_artifact m))"
    and "fetch (network w) (GET (documentKey (m_artifact m))) = (Some response, net1)"
    and "resp_ok response" and "resp_json response = Some ds"
  shows "respond fetch (length ms) w =
           w\<lparr>cache := (cache w)(documentKey (m_artifact m) := Some ds),
             mutations := ms,
             network := net1\<rparr>"
  using assms
  by (simp add: respond_def awaited_def resume_def mutateCallback_refetched_def proceed_def Let_def)


lemma update_accepted_run:
  assumes "documentId a \<noteq> []" and "documentId a \<noteq> ''init''"
    and "cache w (documentKey a) = Some docs"
    and "at_last docs = Some cur" and "doc_content cur \<noteq> Some c"
    and "fetch (network w) (updateRequest a c) = (Some r1, net1)" and "resp_ok r1"
    and "fetch net1 (GET (documentKey a)) = (Some r2, net2)" and "resp_ok r2"
    and "resp_json r2 = Some ds"
  shows "respond fetch (length (mutations w))
           (respond fetch (length (mutations w)) (handleContentChange a c w)) =
           w\<lparr>view := (view w)\<lparr>isContentDirty := False\<rparr>,
             cache := (cache w)(documentKey a := Some ds),
             mutationStamp := (mutationStamp w)(documentKey a := Suc (mutationStamp w (documentKey a))),
             console := console w @ [ConsoleLog ''Handling content change:'',
                                      ConsoleLog ''Content changed, sending update request'',
                                      Fetch (updateRequest a c),
                                      ConsoleLog ''Document updated successfully'',
                                      Fetch (GET (documentKey a))],
             network := net2\<rparr>"
proof -
  let ?m = "\<lparr>m_artifact = a, m_content = c, m_documents = Some docs,
             m_stamp = Suc (mutationStamp w (documentKey a)), m_stage = AwaitsUpdate\<rparr>"
  let ?w1 = "handleContentChange a c w"
  let ?w2 = "respond fetch (length (mutations w)) ?w1"
  have w1: "?w1 =
           w\<lparr>mutationStamp := (mutationStamp w)(documentKey a := Suc (mutationStamp w (documentKey a))),
             mutations := mutations w @ [?m],
             console := console w @ [ConsoleLog ''Handling content change:'',
                                      ConsoleLog ''Content changed, sending update request'',
                                      Fetch (updateRequest a c)]\<rparr>"
    using assms(1-5) by (rule handleContentChange_changed)
  have "?w2 =
           ?w1\<lparr>view := (view ?w1)\<lparr>isContentDirty := False\<rparr>,
             mutations := mutations w @ [?m\<lparr>m_stage := AwaitsRefetch\<rparr>],
             console := console ?w1 @ [ConsoleLog ''Document updated successfully'',
                                      Fetch (GET (documentKey (m_artifact ?m)))],
             network := net1\<rparr>"
  proof (rule respond_update_accepted)
    show "mutations ?w1 = mutations w @ [?m]" by (simp add: w1)
    show "m_stage ?m = AwaitsUpdate" by simp
    show "fetch (network ?w1) (updateRequest (m_artifact ?m) (m_content ?m)) = (Some r1, net1)"
      using assms(6) by (simp add: w1)
    show "resp_ok r1" by (rule assms(7))
  qed
  then have w2: "?w2 =
           w\<lparr>view := (view w)\<lparr>isContentDirty := False\<rparr>,
             mutationStamp := (mutationStamp w)(documentKey a := Suc (mutationStamp w (documentKey a))),
             mutations := mutations w @ [?m\<lparr>m_stage := AwaitsRefetch\<rparr>],
             console := console w @ [ConsoleLog ''Handling content change:'',
                                      ConsoleLog ''Content changed, sending update request'',
                                      Fetch (updateRequest a c),
                                      ConsoleLog ''Document updated successfully'',
                                      Fetch (GET (documentKey a))],
             network := net1\<rparr>"
    by (simp add: w1)
  have "respond fetch (length (mutations w)) ?w2 =
           ?w2\<lparr>cache := (cache ?w2)(documentKey (m_artifact (?m\<lparr>m_stage := AwaitsRefetch\<rparr>)) := Some ds),
             mutations := mutations w,
             network := net2\<rparr>"
  proof (rule respond_refetch_accepted)
    show "mutations ?w2 = mutations w @ [?m\<lparr>m_stage := AwaitsRefetch\<rparr>]" by (simp add: w2)
    show "m_stage (?m\<lparr>m_stage := AwaitsRefetch\<rparr>) = AwaitsRefetch" by simp
    show "m_stamp (?m\<lparr>m_stage := AwaitsRefetch\<rparr>)
        = mutationStamp ?w2 (documentKey (m_artifact (?m\<lparr>m_stage := AwaitsRefetch\<rparr>)))"
      by (simp add: w2)
    show "fetch (network ?w2) (GET (documentKey (m_artifact (?m\<lparr>m_stage := AwaitsRefetch\<rparr>))))
        = (Some r2, net2)"
      using assms(8) by (simp add: w2)
    show "resp_ok r2" by (rule assms(9))
    show "resp_json r2 = Some ds" by (rule assms(10))
  qed
  then show ?thesis
    by (simp add: w2)
qed

lemma handleContentChange_skip:
  assumes "cache w (documentKey a) = Some docs"
    and "at_last docs = Some cur" and "doc_content cur = Some c"
  shows "requests (console (handleContentChange a c w)) = requests (console w)
       \<and> cache (handleContentChange a c w) = cache w
       \<and> network (handleContentChange a c w) = network w
       \<and> mutations (handleContentChange a c w) = mutations w
       \<and> timers (handleContentChange a c w) = timers w
       \<and> view (handleContentChange a c w) = view w"
proof (cases "documentId a = [] \<or> documentId a = ''init''")
  case True
  then have "handleContentChange a c w =
           w\<lparr>console := console w @ [ConsoleLog ''Cannot update document: invalid artifact state'']\<rparr>"
    by (rule handleContentChange_guard)
  then show ?thesis by (simp add: requests_append)
next
  case False
  then have "handleContentChange a c w =
           w\<lparr>mutationStamp := (mutationStamp w)(documentKey a := Suc (mutationStamp w (documentKey a))),
             console := console w @ [ConsoleLog ''Handling content change:'',
                                      ConsoleLog ''Content unchanged, skipping update'']\<rparr>"
    using assms by (simp add: handleContentChange_unchanged)
  then show ?thesis by (simp add: requests_append)
qed

lemma saveContent_cases:
  "saveContent c debounce w = w
   \<or> saveContent c debounce w =
        debouncedHandleContentChange c (w\<lparr>view := (view w)\<lparr>isContentDirty := True\<rparr>\<rparr>)
   \<or> saveContent c debounce w =
        handleContentChange (artifact (view w)) c (w\<lparr>view := (view w)\<lparr>isContentDirty := True\<rparr>\<rparr>)"
  by (simp add: saveContent_def Let_def split: option.splits)

lemma saveContent_skip:
  assumes "cache w (documentKey (artifact (view w))) = Some docs"
    and "at_last docs = Some cur" and "doc_content cur = Some c"
  shows "requests (console (saveContent c debounce w)) = requests (console w)
       \<and> cache (saveContent c debounce w) = cache w
       \<and> network (saveContent c debounce w) = network w
       \<and> mutations (saveContent c debounce w) = mutations w"
proof -
  let ?w1 = "w\<lparr>view := (view w)\<lparr>isContentDirty := True\<rparr>\<rparr>"
  have "cache ?w1 (documentKey (artifact (view w))) = Some docs"
    using assms(1) by simp
  from handleContentChange_skip [OF this assms(2,3)]
  have "requests (console (handleContentChange (artifact (view w)) c ?w1)) = requests (console w)
       \<and> cache (handleContentChange (artifact (view w)) c ?w1) = cache w
       \<and> network (handleContentChange (artifact (view w)) c ?w1) = network w
       \<and> mutations (handleContentChange (artifact (view w)) c ?w1) = mutations w"
    by simp
  moreover have "requests (console (debouncedHandleContentChange c ?w1)) = requests (console w)
       \<and> cache (debouncedHandleContentChange c ?w1) = cache w
       \<and> network (debouncedHandleContentChange c ?w1) = network w
       \<and> mutations (debouncedHandleContentChange c ?w1) = mutations w"
    by (simp add: debouncedHandleContentChange_def)
  ultimately show ?thesis
    using saveContent_cases [of c debounce w] by auto
qed

lemma saveContent_now:
  "saveContent c False w =
     (case document (view w) of
        None \<Rightarrow> w
      | Some d \<Rightarrow>
          if Some c \<noteq> doc_content d then
            handleContentChange (artifact (view w)) c (w\<lparr>view := (view w)\<lparr>isContentDirty := True\<rparr>\<rparr>)
          else w)"
  by (simp add: saveContent_def Let_def split: option.splits)

lemma saveContent_later:
  "saveContent c True w =
     (case document (view w) of
        None \<Rightarrow> w
      | Some d \<Rightarrow>
          if Some c \<noteq> doc_content d then
            w\<lparr>view := (view w)\<lparr>isContentDirty := True\<rparr>,
              timers := filter (\<lambda>t. t_handler t \<noteq> handler w) (timers w)
                          @ [\<lparr>t_handler = handler w, t_artifact = artifact (view w), t_payload = c\<rparr>]\<rparr>
          else w)"
  by (simp add: saveContent_def debouncedHandleContentChange_def Let_def split: option.splits)

text \<open>
  Claim C7, as stated, fails: through \<^verbatim>\<open>saveContent\<close> the bridge is not a no-op while
  the artifact's \<open>documentId\<close> is \<open>''init''\<close>. The page still holds a snapshot fetched
  earlier, and the submitted content differs from it: \<^verbatim>\<open>saveContent\<close> sets the dirty
  flag before the handler's guard is reached, and with debounce it arms the timer with the
  edit.
\<close>

theorem init_save_marks_dirty_counterexample:
  "documentId (artifact (view initWorld)) = ''init''
   \<and> isContentDirty (view initWorld) = False
   \<and> isContentDirty (view (saveContent ''b'' False initWorld)) = True
   \<and> timers initWorld = []
   \<and> timers (saveContent ''b'' True initWorld)
       = [\<lparr>t_handler = 0, t_artifact = artifact (view initWorld), t_payload = ''b''\<rparr>]"
  by (simp add: initWorld_def sampleView_def sampleArtifact_def snapshot_def
      saveContent_def debouncedHandleContentChange_def handleContentChange_def Let_def)

text \<open>
  Claim C7, amended. For an artifact whose \<open>documentId\<close> is \<open>''init''\<close>,
  \<^verbatim>\<open>handleContentChange\<close> returns the page as it was with one console line added: no
  request, no cache mutation, no callback left waiting and no timer armed, so the edit is
  dropped. \<^verbatim>\<open>saveContent\<close> in that state makes no request and no cache mutation
  either, but when a fetched snapshot is held and the content differs from it,
  \<^verbatim>\<open>saveContent\<close> sets the dirty flag, which the guard does not clear, and with
  debounce it arms the debounce timer. When a timer fires whose handler closed over such
  an artifact, the edit is dropped with the same console line, whatever the artifact is by
  then.
\<close>

theorem init_artifact_drops_edit:
  "(documentId a = ''init'' \<longrightarrow>
      handleContentChange a c w =
        w\<lparr>console := console w @ [ConsoleLog ''Cannot update document: invalid artifact state'']\<rparr>)
   \<and> (documentId (artifact (view w)) = ''init'' \<longrightarrow>
      saveContent c False w =
        (case document (view w) of
           None \<Rightarrow> w
         | Some d \<Rightarrow>
             if Some c \<noteq> doc_content d then
               w\<lparr>view := (view w)\<lparr>isContentDirty := True\<rparr>,
                 console := console w @
                   [ConsoleLog ''Cannot update document: invalid artifact state'']\<rparr>
             else w))
   \<and> (documentId (artifact (view w)) = ''init'' \<longrightarrow>
      saveContent c True w =
        (case document (view w) of
           None \<Rightarrow> w
         | Some d \<Rightarrow>
             if Some c \<noteq> doc_content d then
               w\<lparr>view := (view w)\<lparr>isContentDirty := True\<rparr>,
                 timers := filter (\<lambda>t. t_handler t \<noteq> handler w) (timers w)
                             @ [\<lparr>t_handler = handler w, t_artifact = artifact (view w),
                                 t_payload = c\<rparr>]\<rparr>
             else w))
   \<and> (i < length (timers w) \<and> documentId (t_artifact (timers w ! i)) = ''init'' \<longrightarrow>
      timerFires i w =
        w\<lparr>timers := take i (timers w) @ drop (Suc i) (timers w),
          console := console w @ [ConsoleLog ''Cannot update document: invalid artifact state'']\<rparr>)"
proof (intro conjI impI)
  assume "documentId a = ''init''"
  then show "handleContentChange a c w =
        w\<lparr>console := console w @ [ConsoleLog ''Cannot update document: invalid artifact state'']\<rparr>"
    by (simp add: handleContentChange_guard)
next
  assume "documentId (artifact (view w)) = ''init''"
  then have "handleContentChange (artifact (view w)) c (w\<lparr>view := (view w)\<lparr>isContentDirty := True\<rparr>\<rparr>)
      = w\<lparr>view := (view w)\<lparr>isContentDirty := True\<rparr>,
          console := console w @ [ConsoleLog ''Cannot update document: invalid artifact state'']\<rparr>"
    by (simp add: handleContentChange_guard)
  then show "saveContent c False w =
        (case document (view w) of
           None \<Rightarrow> w
         | Some d \<Rightarrow>
             if Some c \<noteq> doc_content d then
               w\<lparr>view := (view w)\<lparr>isContentDirty := True\<rparr>,
                 console := console w @
                   [ConsoleLog ''Cannot update document: invalid artifact state'']\<rparr>
             else w)"
    by (simp add: saveContent_now split: option.splits)
next
  show "saveContent c True w =
        (case document (view w) of
           None \<Rightarrow> w
         | Some d \<Rightarrow>
             if Some c \<noteq> doc_content d then
               w\<lparr>view := (view w)\<lparr>isContentDirty := True\<rparr>,
                 timers := filter (\<lambda>t. t_handler t \<noteq> handler w) (timers w)
                             @ [\<lparr>t_handler = handler w, t_artifact = artifact (view w),
                                 t_payload = c\<rparr>]\<rparr>
             else w)"
    by (rule saveContent_later)
next
  assume h: "i < length (timers w) \<and> documentId (t_artifact (timers w ! i)) = ''init''"
  let ?w1 = "w\<lparr>timers := take i (timers w) @ drop (Suc i) (timers w)\<rparr>"
  from h have "handleContentChange (t_artifact (timers w ! i)) (t_payload (timers w ! i)) ?w1 =
      ?w1\<lparr>console := console ?w1 @ [ConsoleLog ''Cannot update document: invalid artifact state'']\<rparr>"
    by (simp add: handleContentChange_guard)
  with h show "timerFires i w =
        w\<lparr>timers := take i (timers w) @ drop (Suc i) (timers w),
          console := console w @ [ConsoleLog ''Cannot update document: invalid artifact state'']\<rparr>"
    by (simp add: timerFires_def Let_def)
qed

theorem init_artifact_drops_edit_witness:
  "documentId (artifact (view initWorld)) = ''init''
   \<and> console (handleContentChange (artifact (view initWorld)) ''b'' initWorld)
       = [ConsoleLog ''Cannot update document: invalid artifact state'']
   \<and> console (saveContent ''b'' False initWorld)
       = [ConsoleLog ''Cannot update document: invalid artifact state'']
   \<and> mutations (saveContent ''b'' False initWorld) = []
   \<and> network (saveContent ''b'' False initWorld) = []
   \<and> length (timers (setArtifact (\<lambda>a. a\<lparr>documentId := ''d1''\<rparr>) (saveContent ''b'' True initWorld))) = 1
   \<and> documentId (artifact (view
         (setArtifact (\<lambda>a. a\<lparr>documentId := ''d1''\<rparr>) (saveContent ''b'' True initWorld)))) = ''d1''
   \<and> console (timerFires 0
         (setArtifact (\<lambda>a. a\<lparr>documentId := ''d1''\<rparr>) (saveContent ''b'' True initWorld)))
       = [ConsoleLog ''Cannot update document: invalid artifact state'']
   \<and> timers (timerFires 0
         (setArtifact (\<lambda>a. a\<lparr>documentId := ''d1''\<rparr>) (saveContent ''b'' True initWorld))) = []
   \<and> mutations (timerFires 0
         (setArtifact (\<lambda>a. a\<lparr>documentId := ''d1''\<rparr>) (saveContent ''b'' True initWorld))) = []"
  using init_artifact_drops_edit
      [of "artifact (view initWorld)" "''b''" initWorld 0]
    init_artifact_drops_edit
      [of "artifact (view initWorld)" "''b''"
          "setArtifact (\<lambda>a. a\<lparr>documentId := ''d1''\<rparr>) (saveContent ''b'' True initWorld)" 0]
  by (simp add: initWorld_def sampleView_def sampleArtifact_def snapshot_def setArtifact_def
      saveContent_def debouncedHandleContentChange_def Let_def)



text \<open>
  Claim C2, as stated, fails in its second half. When the server refuses the update, the
  cache keeps the old snapshot, and submitting the same content again issues the update
  request again: two submissions of \<open>''b''\<close> over a cached \<open>''a''\<close> give two writes,
  through \<^verbatim>\<open>saveContent\<close> and through \<^verbatim>\<open>handleContentChange\<close>. The same happens with
  a server that accepts the update when the second submission is made before the first
  has been answered: both callbacks have read the old cache.
\<close>

theorem identical_content_twice_counterexample:
  "length (writes (console (respond refusingServer 0 (saveContent ''b'' False
       (respond refusingServer 0 (saveContent ''b'' False
          (sampleWorld [snapshot (Some ''a'') 0] ()))))))) = 2
   \<and> length (writes (console (respond refusingServer 0 (handleContentChange sampleArtifact ''b''
       (respond refusingServer 0 (handleContentChange sampleArtifact ''b''
          (sampleWorld [snapshot (Some ''a'') 0] ()))))))) = 2
   \<and> length (writes (console (handleContentChange sampleArtifact ''b''
       (handleContentChange sampleArtifact ''b''
          (sampleWorld [snapshot (Some ''a'') 0] [snapshot (Some ''a'') 0]))))) = 2"
  by (simp add: sampleWorld_def sampleView_def sampleArtifact_def snapshot_def at_last_def
      saveContent_def handleContentChange_def mutate_def proceed_def respond_def awaited_def
      resume_def mutateCallback_start_def mutateCallback_updated_def refusingServer_def
      documentKey_def updateRequest_def writes_def Let_def)

text \<open>
  Claim C2, amended. A submission whose content equals the latest cached snapshot's
  content issues no request and leaves the cache and the network as they were, with no
  callback waiting. Two submissions of the same content in sequence give exactly one
  write when the content differs from the latest cached snapshot at the first submission,
  the update request succeeds, the re-fetch succeeds with a list whose latest snapshot
  carries that content, and the second submission is made after both answers have
  arrived and the cache has been updated.
\<close>

theorem unchanged_content_skips_write:
  "(cache w' (documentKey a') = Some docs' \<and> at_last docs' = Some cur'
      \<and> doc_content cur' = Some c \<longrightarrow>
        requests (console (handleContentChange a' c w')) = requests (console w')
        \<and> cache (handleContentChange a' c w') = cache w'
        \<and> network (handleContentChange a' c w') = network w'
        \<and> mutations (handleContentChange a' c w') = mutations w')
   \<and> (cache w' (documentKey (artifact (view w'))) = Some docs' \<and> at_last docs' = Some cur'
      \<and> doc_content cur' = Some c \<longrightarrow>
        requests (console (saveContent c debounce w')) = requests (console w'))
   \<and> (documentId a \<noteq> [] \<and> documentId a \<noteq> ''init''
      \<and> cache w (documentKey a) = Some docs \<and> at_last docs = Some cur
      \<and> doc_content cur \<noteq> Some c
      \<and> fetch (network w) (updateRequest a c) = (Some r1, net1) \<and> resp_ok r1
      \<and> fetch net1 (GET (documentKey a)) = (Some r2, net2) \<and> resp_ok r2
      \<and> resp_json r2 = Some ds \<and> at_last ds = Some new \<and> doc_content new = Some c \<longrightarrow>
        writes (console (handleContentChange a c
            (respond fetch (length (mutations w))
               (respond fetch (length (mutations w)) (handleContentChange a c w)))))
          = writes (console w) @ [updateRequest a c]
        \<and> mutations (handleContentChange a c
            (respond fetch (length (mutations w))
               (respond fetch (length (mutations w)) (handleContentChange a c w))))
          = mutations w)"
proof (intro conjI impI)
  assume h: "cache w' (documentKey a') = Some docs' \<and> at_last docs' = Some cur'
      \<and> doc_content cur' = Some c"
  then have s: "requests (console (handleContentChange a' c w')) = requests (console w')
       \<and> cache (handleContentChange a' c w') = cache w'
       \<and> network (handleContentChange a' c w') = network w'
       \<and> mutations (handleContentChange a' c w') = mutations w'
       \<and> timers (handleContentChange a' c w') = timers w'
       \<and> view (handleContentChange a' c w') = view w'"
    using handleContentChange_skip by blast
  from s show "requests (console (handleContentChange a' c w')) = requests (console w')" by simp
  from s show "cache (handleContentChange a' c w') = cache w'" by simp
  from s show "network (handleContentChange a' c w') = network w'" by simp
  from s show "mutations (handleContentChange a' c w') = mutations w'" by simp
next
  assume "cache w' (documentKey (artifact (view w'))) = Some docs' \<and> at_last docs' = Some cur'
      \<and> doc_content cur' = Some c"
  then show "requests (console (saveContent c debounce w')) = requests (console w')"
    using saveContent_skip by blast
next
  assume h: "documentId a \<noteq> [] \<and> documentId a \<noteq> ''init''
      \<and> cache w (documentKey a) = Some docs \<and> at_last docs = Some cur
      \<and> doc_content cur \<noteq> Some c
      \<and> fetch (network w) (updateRequest a c) = (Some r1, net1) \<and> resp_ok r1
      \<and> fetch net1 (GET (documentKey a)) = (Some r2, net2) \<and> resp_ok r2
      \<and> resp_json r2 = Some ds \<and> at_last ds = Some new \<and> doc_content new = Some c"
  let ?w2 = "respond fetch (length (mutations w))
               (respond fetch (length (mutations w)) (handleContentChange a c w))"
  have first: "?w2 =
           w\<lparr>view := (view w)\<lparr>isContentDirty := False\<rparr>,
             cache := (cache w)(documentKey a := Some ds),
             mutationStamp := (mutationStamp w)(documentKey a := Suc (mutationStamp w (documentKey a))),
             console := console w @ [ConsoleLog ''Handling content change:'',
                                      ConsoleLog ''Content changed, sending update request'',
                                      Fetch (updateRequest a c),
                                      ConsoleLog ''Document updated successfully'',
                                      Fetch (GET (documentKey a))],
             network := net2\<rparr>"
    using h
    by (intro update_accepted_run [where docs = docs and cur = cur and ?r1.0 = r1
          and ?r2.0 = r2 and ?net1.0 = net1]) simp_all
  then have "cache ?w2 (documentKey a) = Some ds"
    by simp
  with h have s: "requests (console (handleContentChange a c ?w2)) = requests (console ?w2)
       \<and> cache (handleContentChange a c ?w2) = cache ?w2
       \<and> network (handleContentChange a c ?w2) = network ?w2
       \<and> mutations (handleContentChange a c ?w2) = mutations ?w2
       \<and> timers (handleContentChange a c ?w2) = timers ?w2
       \<and> view (handleContentChange a c ?w2) = view ?w2"
    using handleContentChange_skip by blast
  have "writes (console (handleContentChange a c ?w2)) = writes (console ?w2)"
    using s by (simp add: writes_def)
  also have "\<dots> = writes (console w) @ [updateRequest a c]"
    by (simp add: first writes_append) (simp add: writes_def updateRequest_def)
  finally show "writes (console (handleContentChange a c ?w2))
          = writes (console w) @ [updateRequest a c]" .
  from s show "mutations (handleContentChange a c ?w2) = mutations w"
    by (simp add: first)
qed

theorem unchanged_content_skips_write_witness:
  "writes (console (handleContentChange sampleArtifact ''b''
      (respond appendingServer 0 (respond appendingServer 0
         (handleContentChange sampleArtifact ''b''
            (sampleWorld [snapshot (Some ''a'') 0] [snapshot (Some ''a'') 0]))))))
     = [updateRequest sampleArtifact ''b'']
   \<and> requests (console (saveContent ''b'' False
        (respond appendingServer 0 (respond appendingServer 0
           (handleContentChange sampleArtifact ''b''
              (sampleWorld [snapshot (Some ''a'') 0] [snapshot (Some ''a'') 0]))))))
     = [updateRequest sampleArtifact ''b'', GET ''/api/document?id=d1'']"
  using unchanged_content_skips_write
    [where fetch = appendingServer and c = "''b''" and debounce = False and a = sampleArtifact
       and w = "sampleWorld [snapshot (Some ''a'') 0] [snapshot (Some ''a'') 0]"
       and docs = "[snapshot (Some ''a'') 0]" and cur = "snapshot (Some ''a'') 0"
       and ?r1.0 = "\<lparr>resp_ok = True, resp_text = [], resp_json = None\<rparr>"
       and ?net1.0 = "[snapshot (Some ''a'') 0, snapshot (Some ''b'') 1]"
       and ?r2.0 = "\<lparr>resp_ok = True, resp_text = [],
                      resp_json = Some [snapshot (Some ''a'') 0, snapshot (Some ''b'') 1]\<rparr>"
       and ?net2.0 = "[snapshot (Some ''a'') 0, snapshot (Some ''b'') 1]"
       and ds = "[snapshot (Some ''a'') 0, snapshot (Some ''b'') 1]"
       and new = "snapshot (Some ''b'') 1"
       and a' = sampleArtifact
       and w' = "respond appendingServer 0 (respond appendingServer 0
                   (handleContentChange sampleArtifact ''b''
                      (sampleWorld [snapshot (Some ''a'') 0] [snapshot (Some ''a'') 0])))"
       and docs' = "[snapshot (Some ''a'') 0, snapshot (Some ''b'') 1]"
       and cur' = "snapshot (Some ''b'') 1"]
  by (simp add: sampleWorld_def sampleView_def sampleArtifact_def snapshot_def at_last_def
      handleContentChange_def mutate_def proceed_def respond_def awaited_def resume_def
      mutateCallback_start_def mutateCallback_updated_def mutateCallback_refetched_def
      appendingServer_def documentKey_def updateRequest_def writes_def Let_def)

end
